theory Spec2Isabelle
  imports Main "HOL-Library.Sublist"
begin

section \<open>Data model of \<open>chatgpt_block.py\<close>\<close>

text \<open>
  A turn is the dictionary \<^verbatim>\<open>{"role": ..., "content": ...}\<close> of the source; both
  entries are Python strings, and dictionaries compare by value.
\<close>

record turn =
  role :: string
  content :: string

text \<open>The exceptions that the modelled code raises, or that reach it from outside.\<close>

datatype error =
    KeyError
  | ValueError
  | IndexError
  | NotImplementedError
  | OpenAIError string
  | ChunkedEncodingError
  | Exception string

text \<open>
  The object state of \<^verbatim>\<open>ChatGPTBlock\<close>. The field \<open>answer\<close> is \<^verbatim>\<open>self._answer\<close>.
  The caller-supplied \<^verbatim>\<open>on_error\<close> hook is observed through \<open>on_error_calls\<close>, the
  number of times it has been invoked. The tokenizer \<^verbatim>\<open>self.encoder\<close> is an external
  library object; the functions below take its \<^verbatim>\<open>encode\<close> as the parameter \<open>enc\<close>.
\<close>

record session =
  stream :: bool
  model :: string
  tokens_available :: int
  max_output_length :: int
  system_prompt :: turn
  initial_examples :: "turn list"
  history :: "turn list"
  answer :: string
  raise_on_error :: bool
  on_error_calls :: nat

section \<open>Token counting\<close>

text \<open>Python's \<^verbatim>\<open>sep.join(xs)\<close> on a list of strings.\<close>

fun join :: "string \<Rightarrow> string list \<Rightarrow> string" where
  "join sep [] = []"
| "join sep [x] = x"
| "join sep (x # y # ys) = x @ sep @ join sep (y # ys)"

text \<open>
  \<^verbatim>\<open>get_number_of_tokens\<close> dispatches on the run-time type of its argument; the
  argument is a tagged value here, \<open>InOther\<close> standing for every other type.
\<close>

datatype token_input = InDict turn | InStr string | InList "turn list" | InOther

fun get_number_of_tokens :: "(string \<Rightarrow> 'tok list) \<Rightarrow> token_input \<Rightarrow> error + int" where
  "get_number_of_tokens enc (InDict d) = Inr (int (length (enc (content d))))"
| "get_number_of_tokens enc (InStr s) = Inr (int (length (enc s)))"
| "get_number_of_tokens enc (InList xs) = Inr (int (length (enc (join '' '' (map content xs)))))"
| "get_number_of_tokens enc InOther = Inl NotImplementedError"

section \<open>History trimming\<close>

text \<open>
  The \<^verbatim>\<open>for element in reversed(self.history)\<close> loop of \<^verbatim>\<open>get_trimmed_history\<close>.
  The arguments are the elements still to visit (most recent first), and the loop
  variables \<^verbatim>\<open>tokens_count\<close>, \<^verbatim>\<open>user_element\<close> and \<^verbatim>\<open>trimmed_history\<close>;
  \<^verbatim>\<open>break\<close> leaves the loop with the variables as they are.
\<close>

fun trim_loop ::
  "(string \<Rightarrow> 'tok list) \<Rightarrow> int \<Rightarrow> turn list \<Rightarrow> int \<Rightarrow> turn option \<Rightarrow> turn list
     \<Rightarrow> error + (turn option \<times> turn list)" where
  "trim_loop enc total_tokens [] tokens_count user_element trimmed_history =
     Inr (user_element, trimmed_history)"
| "trim_loop enc total_tokens (element # rest) tokens_count user_element trimmed_history =
     (case get_number_of_tokens enc (InDict element) of
        Inl e \<Rightarrow> Inl e
      | Inr n \<Rightarrow>
          (if tokens_count + n > total_tokens then Inr (user_element, trimmed_history)
           else trim_loop enc total_tokens rest (tokens_count + n)
                  (if role element = ''user'' then Some element else user_element)
                  (element # trimmed_history)))"

text \<open>Python's \<^verbatim>\<open>xs.index(x)\<close>: the first position holding a value equal to \<open>x\<close>.\<close>

fun index :: "'a list \<Rightarrow> 'a \<Rightarrow> error + nat" where
  "index [] x = Inl ValueError"
| "index (y # ys) x =
     (if y = x then Inr 0 else (case index ys x of Inl e \<Rightarrow> Inl e | Inr i \<Rightarrow> Inr (Suc i)))"

text \<open>
  The part of \<^verbatim>\<open>get_trimmed_history\<close> after the loop. A turn dictionary has two
  keys, so \<^verbatim>\<open>user_element\<close> is truthy exactly when it is not \<^verbatim>\<open>None\<close>;
  \<^verbatim>\<open>trimmed_history[0]\<close> raises on the empty list.
\<close>

definition drop_stranded :: "turn option \<Rightarrow> turn list \<Rightarrow> error + turn list" where
  "drop_stranded user_element trimmed_history =
     (case user_element of
        None \<Rightarrow> Inr trimmed_history
      | Some u \<Rightarrow>
          (case trimmed_history of
             [] \<Rightarrow> Inl IndexError
           | first # _ \<Rightarrow>
               (if u \<noteq> first then
                  (case index trimmed_history u of
                     Inl e \<Rightarrow> Inl e
                   | Inr i \<Rightarrow> Inr (drop (i + 1) trimmed_history))
                else Inr trimmed_history)))"

text \<open>
  Trimming as a function of the history \<open>H\<close> and the limit \<open>L\<close>
  (\<^verbatim>\<open>total_tokens\<close> in the source).
\<close>

definition trim :: "(string \<Rightarrow> 'tok list) \<Rightarrow> turn list \<Rightarrow> int \<Rightarrow> error + turn list" where
  "trim enc H L =
     (case trim_loop enc L (rev H) 0 None [] of
        Inl e \<Rightarrow> Inl e
      | Inr (user_element, trimmed_history) \<Rightarrow> drop_stranded user_element trimmed_history)"

definition get_trimmed_history :: "(string \<Rightarrow> 'tok list) \<Rightarrow> session \<Rightarrow> error + turn list" where
  "get_trimmed_history enc s =
     (let total_tokens = tokens_available s - max_output_length s
      in trim enc (history s) total_tokens)"

text \<open>
  The measure that \<^verbatim>\<open>get_trimmed_history\<close> itself reports for a trimmed history:
  \<^verbatim>\<open>sum(self.get_number_of_tokens(el) for el in trimmed_history)\<close>.
\<close>

definition tokens :: "(string \<Rightarrow> 'tok list) \<Rightarrow> turn list \<Rightarrow> int" where
  "tokens enc xs = sum_list (map (\<lambda>el. int (length (enc (content el)))) xs)"

text \<open>
  A stand-in tokenizer for evaluating concrete inputs: one token for each character.
\<close>

definition char_encoder :: "string \<Rightarrow> nat list" where
  "char_encoder s = map of_char s"

section \<open>Construction\<close>

definition max_tokens_by_model :: "(string \<times> int) list" where
  "max_tokens_by_model =
     [(''gpt-3.5-turbo'', 4097), (''gpt-3.5-turbo-0301'', 4097),
      (''gpt-4'', 8192), (''gpt-4-0314'', 8192)]"

text \<open>
  \<^verbatim>\<open>ChatGPTBlock.__init__\<close>. The example pairs are given with their contents already
  converted by \<^verbatim>\<open>str\<close>; \<^verbatim>\<open>None\<close> and the empty list of examples behave alike.
  The temperature is a float that is only passed on to the service and is left out.
\<close>

definition init ::
  "(string \<Rightarrow> 'tok list) \<Rightarrow> string \<Rightarrow> (string \<times> string) list \<Rightarrow> string \<Rightarrow> int \<Rightarrow> bool \<Rightarrow> bool
     \<Rightarrow> error + session" where
  "init enc prompt examples model_name max_output stream_flag raise_on_errors =
     (case map_of max_tokens_by_model model_name of
        None \<Rightarrow> Inl KeyError
      | Some capacity \<Rightarrow>
          (if capacity < max_output then Inl ValueError
           else
             (let examples_turns =
                    concat (map (\<lambda>(u, a). [\<lparr>role = ''user'', content = u\<rparr>,
                                            \<lparr>role = ''assistant'', content = a\<rparr>]) examples)
              in case get_number_of_tokens enc (InStr prompt) of
                   Inl e \<Rightarrow> Inl e
                 | Inr system_prompt_len \<Rightarrow>
                     (case get_number_of_tokens enc
                             (InStr (join '' '' (map content examples_turns))) of
                        Inl e \<Rightarrow> Inl e
                      | Inr examples_len \<Rightarrow>
                          Inr \<lparr>stream = stream_flag,
                               model = model_name,
                               tokens_available = capacity - (system_prompt_len + examples_len),
                               max_output_length = max_output,
                               system_prompt = \<lparr>role = ''system'', content = prompt\<rparr>,
                               initial_examples = examples_turns,
                               history = [],
                               answer = [],
                               raise_on_error = raise_on_errors,
                               on_error_calls = 0\<rparr>))))"

definition reset :: "session \<Rightarrow> session" where
  "reset s = s\<lparr>history := [], answer := []\<rparr>"

section \<open>Responses of the model service\<close>

text \<open>
  \<^verbatim>\<open>chunk['choices'][0]\<close> is a dictionary with the entry \<^verbatim>\<open>finish_reason\<close>
  (\<^verbatim>\<open>None\<close> or a string) and the optional entries \<^verbatim>\<open>delta\<close> and \<^verbatim>\<open>message\<close>,
  themselves dictionaries.
\<close>

record choice =
  finish_reason :: "string option"
  delta :: "(string \<rightharpoonup> string) option"
  message :: "(string \<rightharpoonup> string) option"

record chunk =
  choices :: "choice list"

text \<open>How an upstream chunk generator ends: it is exhausted, or it raises.\<close>

datatype stream_end = StopIteration | Raises error

text \<open>
  What \<^verbatim>\<open>openai.ChatCompletion.create\<close> does: it returns a response object, returns a
  generator of chunks, or raises (an \<^verbatim>\<open>OpenAIError\<close> or any other exception, each with
  the text that \<^verbatim>\<open>str\<close> gives for it).
\<close>

datatype api_outcome =
    ReturnsObject chunk
  | ReturnsGenerator "chunk list" stream_end
  | RaisesOpenAIError string
  | RaisesException string

record api_request =
  req_model :: string
  req_stream :: bool
  req_messages :: "turn list"

datatype raw_response =
    SimpleStringIterator string
  | GeneratorType "chunk list" stream_end
  | OpenAIObject chunk
  | Str string

text \<open>Python's \<^verbatim>\<open>str.isspace\<close> on a character below code point 256, and \<^verbatim>\<open>str.split()\<close>.\<close>

definition isspace :: "char \<Rightarrow> bool" where
  "isspace c =
     (c = CHR '' '' \<or> c = CHR 0x09 \<or> c = CHR 0x0A \<or> c = CHR 0x0B \<or> c = CHR 0x0C \<or>
      c = CHR 0x0D \<or> c = CHR 0x1C \<or> c = CHR 0x1D \<or> c = CHR 0x1E \<or> c = CHR 0x1F \<or>
      c = CHR 0x85 \<or> c = CHR 0xA0)"

fun split_from :: "string \<Rightarrow> string \<Rightarrow> string list" where
  "split_from word [] = (if word = [] then [] else [word])"
| "split_from word (c # cs) =
     (if isspace c then (if word = [] then split_from [] cs else word # split_from [] cs)
      else split_from (word @ [c]) cs)"

definition split :: "string \<Rightarrow> string list" where
  "split s = split_from [] s"

text \<open>The items that a \<^verbatim>\<open>SimpleStringIterator(string)\<close> produces.\<close>

definition SimpleStringIterator_items :: "string \<Rightarrow> string list" where
  "SimpleStringIterator_items s = map (\<lambda>tok. tok @ '' '') (split s)"

section \<open>Dispatch and normalisation\<close>

text \<open>
  Every operation returns the session as it is when the operation returns or raises.
\<close>

definition call_raw_api ::
  "(api_request \<Rightarrow> api_outcome) \<Rightarrow> session \<Rightarrow> (error + raw_response) \<times> session" where
  "call_raw_api api s =
     (case api \<lparr>req_model = model s, req_stream = stream s,
                req_messages = system_prompt s # initial_examples s @ history s\<rparr> of
        ReturnsObject obj \<Rightarrow> (Inr (OpenAIObject obj), s)
      | ReturnsGenerator chunks fin \<Rightarrow> (Inr (GeneratorType chunks fin), s)
      | RaisesOpenAIError e \<Rightarrow>
          (let s' = s\<lparr>on_error_calls := Suc (on_error_calls s)\<rparr>
           in if raise_on_error s' then (Inl (OpenAIError e), s')
              else (let errmsg = ''OpenAI internal error. '' @ e
                    in (Inr (if stream s' then SimpleStringIterator errmsg else Str errmsg), s')))
      | RaisesException e \<Rightarrow>
          (let s' = s\<lparr>on_error_calls := Suc (on_error_calls s)\<rparr>
           in if raise_on_error s' then (Inl (Exception e), s')
              else (let errmsg = ''Internal error. '' @ e
                    in (Inr (if stream s' then SimpleStringIterator errmsg else Str errmsg), s'))))"

definition process_response :: "session \<Rightarrow> chunk \<Rightarrow> (error + string option) \<times> session" where
  "process_response s ch =
     (case choices ch of
        [] \<Rightarrow> (Inl IndexError, s)
      | c # _ \<Rightarrow>
          (case finish_reason c of
             None \<Rightarrow>
               (case delta c of
                  None \<Rightarrow> (Inl KeyError, s)
                | Some d \<Rightarrow>
                    (let piece = (case d ''content'' of Some x \<Rightarrow> x | None \<Rightarrow> [])
                     in (Inr (Some piece), s\<lparr>answer := answer s @ piece\<rparr>)))
           | Some reason \<Rightarrow>
               (if reason = ''stop'' \<or> reason = ''length'' then
                  (let (final_answer, s1) =
                         (case (if stream s then None
                                else (case message c of None \<Rightarrow> None | Some m \<Rightarrow> m ''content'')) of
                            None \<Rightarrow> (None, s)
                          | Some x \<Rightarrow> (Some x, s\<lparr>answer := x\<rparr>));
                       s2 = s1\<lparr>history := history s1 @ [\<lparr>role = ''assistant'', content = answer s1\<rparr>]\<rparr>
                   in (Inr final_answer, s2\<lparr>answer := []\<rparr>))
                else (Inl (Exception reason), s))))"

text \<open>Python's truth value of a \<^verbatim>\<open>Union[str, None]\<close>.\<close>

fun truthy :: "string option \<Rightarrow> bool" where
  "truthy None = False"
| "truthy (Some x) = (x \<noteq> [])"

text \<open>
  The \<^verbatim>\<open>except requests.exceptions.ChunkedEncodingError\<close> clause of
  \<^verbatim>\<open>generator_wrapper\<close>: what is yielded from there on, the exception that leaves the
  generator if any, and the session.
\<close>

definition stream_handler :: "session \<Rightarrow> error \<Rightarrow> string list \<times> error option \<times> session" where
  "stream_handler s e =
     (if e = ChunkedEncodingError then
        (map (\<lambda>w. w @ '' '') (split ''openAI error. Please try again.''), None,
         s\<lparr>on_error_calls := Suc (on_error_calls s)\<rparr>)
      else ([], Some e, s))"

text \<open>
  \<^verbatim>\<open>generator_wrapper\<close>, consumed to its end from session \<open>s\<close>: the fragments it
  yields in order, the exception that ends it if any, and the session afterwards.
\<close>

fun generator_wrapper ::
  "session \<Rightarrow> chunk list \<Rightarrow> stream_end \<Rightarrow> string list \<times> error option \<times> session" where
  "generator_wrapper s [] StopIteration = ([], None, s)"
| "generator_wrapper s [] (Raises e) = stream_handler s e"
| "generator_wrapper s (ch # rest) fin =
     (case process_response s ch of
        (Inl e, s') \<Rightarrow> stream_handler s' e
      | (Inr piece, s') \<Rightarrow>
          (case generator_wrapper s' rest fin of
             (pieces, err, s'') \<Rightarrow>
               ((if truthy piece then [the piece] else []) @ pieces, err, s'')))"

text \<open>
  What \<^verbatim>\<open>api_answer_wrapper\<close> and \<^verbatim>\<open>__call__\<close> return: the error-message iterator,
  the wrapped chunk generator (not yet started), or the result of \<^verbatim>\<open>process_response\<close>.
\<close>

datatype reply =
    Iterator string
  | Generator "chunk list" stream_end
  | Text "string option"

definition api_answer_wrapper ::
  "(api_request \<Rightarrow> api_outcome) \<Rightarrow> session \<Rightarrow> (error + reply) \<times> session" where
  "api_answer_wrapper api s =
     (case call_raw_api api s of
        (Inl e, s') \<Rightarrow> (Inl e, s')
      | (Inr (SimpleStringIterator m), s') \<Rightarrow> (Inr (Iterator m), s')
      | (Inr (GeneratorType chunks fin), s') \<Rightarrow> (Inr (Generator chunks fin), s')
      | (Inr (OpenAIObject obj), s') \<Rightarrow>
          (case process_response s' obj of
             (Inl e, s'') \<Rightarrow> (Inl e, s'')
           | (Inr r, s'') \<Rightarrow> (Inr (Text r), s''))
      | (Inr (Str m), s') \<Rightarrow> (Inl ValueError, s'))"

text \<open>\<^verbatim>\<open>ChatGPTBlock.__call__\<close>, the preprocessor being the parameter \<open>preprocessor\<close>.\<close>

definition call ::
  "(string \<Rightarrow> 'tok list) \<Rightarrow> ('a \<Rightarrow> string) \<Rightarrow> (api_request \<Rightarrow> api_outcome) \<Rightarrow> session \<Rightarrow> 'a
     \<Rightarrow> (error + reply) \<times> session" where
  "call enc preprocessor api s args =
     (let request = preprocessor args;
          s1 = s\<lparr>history := history s @ [\<lparr>role = ''user'', content = request\<rparr>]\<rparr>
      in case get_trimmed_history enc s1 of
           Inl e \<Rightarrow> (Inl e, s1)
         | Inr h \<Rightarrow> api_answer_wrapper api (s1\<lparr>history := h\<rparr>))"

section \<open>Shapes of chunks and concrete inputs\<close>

text \<open>
  A chunk carries the content delta \<open>x\<close>: its first choice has no finish reason and a
  \<^verbatim>\<open>delta\<close> with the entry \<^verbatim>\<open>content\<close> equal to \<open>x\<close>.
\<close>

definition carries_delta :: "chunk \<Rightarrow> string \<Rightarrow> bool" where
  "carries_delta ch x =
     (case choices ch of
        [] \<Rightarrow> False
      | c # _ \<Rightarrow>
          finish_reason c = None \<and>
          (case delta c of None \<Rightarrow> False | Some d \<Rightarrow> d ''content'' = Some x))"

text \<open>
  A chunk without content: no finish reason, and a \<^verbatim>\<open>delta\<close> that lacks the entry
  \<^verbatim>\<open>content\<close> or holds the empty string there.
\<close>

definition without_content :: "chunk \<Rightarrow> bool" where
  "without_content ch =
     (case choices ch of
        [] \<Rightarrow> False
      | c # _ \<Rightarrow>
          finish_reason c = None \<and>
          (case delta c of
             None \<Rightarrow> False
           | Some d \<Rightarrow> d ''content'' = None \<or> d ''content'' = Some []))"

text \<open>A terminal chunk: its first choice has the finish reason \<open>stop\<close> or \<open>length\<close>.\<close>

definition terminal :: "chunk \<Rightarrow> bool" where
  "terminal ch =
     (case choices ch of
        [] \<Rightarrow> False
      | c # _ \<Rightarrow> finish_reason c = Some ''stop'' \<or> finish_reason c = Some ''length'')"

text \<open>Concrete chunks as the service sends them while streaming.\<close>

definition delta_chunk :: "string \<Rightarrow> chunk" where
  "delta_chunk x =
     \<lparr>choices = [\<lparr>finish_reason = None, delta = Some [''content'' \<mapsto> x], message = None\<rparr>]\<rparr>"

definition role_chunk :: chunk where
  "role_chunk =
     \<lparr>choices = [\<lparr>finish_reason = None, delta = Some [''role'' \<mapsto> ''assistant''],
                  message = None\<rparr>]\<rparr>"

definition finish_chunk :: "string \<Rightarrow> chunk" where
  "finish_chunk reason =
     \<lparr>choices = [\<lparr>finish_reason = Some reason, delta = Some Map.empty, message = None\<rparr>]\<rparr>"

text \<open>A complete response object, as the service returns it when not streaming.\<close>

definition message_object :: "string \<Rightarrow> string \<Rightarrow> chunk" where
  "message_object reason x =
     \<lparr>choices = [\<lparr>finish_reason = Some reason, delta = None,
                  message = Some [''role'' \<mapsto> ''assistant'', ''content'' \<mapsto> x]\<rparr>]\<rparr>"

text \<open>
  The session that \<^verbatim>\<open>ChatGPTBlock("hi", model="gpt-4", max_output_length=400, ...)\<close>
  constructs under the one-token-per-character tokenizer.
\<close>

definition fresh_session :: "bool \<Rightarrow> bool \<Rightarrow> session" where
  "fresh_session stream_flag raise_on_errors =
     \<lparr>stream = stream_flag, model = ''gpt-4'', tokens_available = 8190,
      max_output_length = 400, system_prompt = \<lparr>role = ''system'', content = ''hi''\<rparr>,
      initial_examples = [], history = [], answer = [],
      raise_on_error = raise_on_errors, on_error_calls = 0\<rparr>"

section \<open>Properties of trimming\<close>

lemma tokens_Nil: "tokens enc [] = 0"
  by (simp add: tokens_def)

lemma tokens_Cons: "tokens enc (x # xs) = int (length (enc (content x))) + tokens enc xs"
  by (simp add: tokens_def)

lemma tokens_append: "tokens enc (xs @ ys) = tokens enc xs + tokens enc ys"
  by (simp add: tokens_def)

lemma tokens_rev: "tokens enc (rev xs) = tokens enc xs"
  by (induction xs) (simp_all add: tokens_Nil tokens_Cons tokens_append)

lemma tokens_nonneg: "0 \<le> tokens enc xs"
  by (induction xs) (simp_all add: tokens_Nil tokens_Cons)

lemma trim_loop_prefix:
  "\<exists>k\<le>length es.
     trim_loop enc L es c (find (\<lambda>e. role e = ''user'') t) t =
       Inr (find (\<lambda>e. role e = ''user'') (rev (take k es) @ t), rev (take k es) @ t) \<and>
     (k = 0 \<or> c + tokens enc (take k es) \<le> L)"
proof (induction es arbitrary: c t)
  case Nil
  show ?case by simp
next
  case (Cons e es)
  let ?n = "int (length (enc (content e)))"
  show ?case
  proof (cases "c + ?n > L")
    case True
    then have "trim_loop enc L (e # es) c (find (\<lambda>e. role e = ''user'') t) t =
        Inr (find (\<lambda>e. role e = ''user'') (rev (take 0 (e # es)) @ t), rev (take 0 (e # es)) @ t)"
      by simp
    then show ?thesis by blast
  next
    case False
    from Cons.IH [of "c + ?n" "e # t"] obtain k where k: "k \<le> length es"
      and run: "trim_loop enc L es (c + ?n) (find (\<lambda>e. role e = ''user'') (e # t)) (e # t) =
         Inr (find (\<lambda>e. role e = ''user'') (rev (take k es) @ e # t), rev (take k es) @ e # t)"
      and fit: "k = 0 \<or> c + ?n + tokens enc (take k es) \<le> L"
      by blast
    have "trim_loop enc L (e # es) c (find (\<lambda>e. role e = ''user'') t) t =
        Inr (find (\<lambda>e. role e = ''user'') (rev (take (Suc k) (e # es)) @ t),
             rev (take (Suc k) (e # es)) @ t)"
      using False run by simp
    moreover have "c + tokens enc (take (Suc k) (e # es)) \<le> L"
      using fit False by (auto simp: tokens_Cons tokens_Nil)
    ultimately show ?thesis using k
      by (intro exI [of _ "Suc k"]) simp
  qed
qed

lemma trim_loop_all:
  "c + tokens enc es \<le> L \<Longrightarrow>
   trim_loop enc L es c (find (\<lambda>e. role e = ''user'') t) t =
     Inr (find (\<lambda>e. role e = ''user'') (rev es @ t), rev es @ t)"
proof (induction es arbitrary: c t)
  case Nil
  show ?case by simp
next
  case (Cons e es)
  let ?n = "int (length (enc (content e)))"
  have le: "c + ?n + tokens enc es \<le> L"
    using Cons.prems by (simp add: tokens_Cons)
  have "c + ?n \<le> L"
    using le tokens_nonneg [of enc es] by linarith
  then show ?case
    using Cons.IH [OF le, of "e # t"] by simp
qed

lemma index_find:
  "find P xs = Some u \<Longrightarrow> index xs u = Inr (length (takeWhile (Not \<circ> P) xs))"
proof (induction xs)
  case Nil
  then show ?case by simp
next
  case (Cons y ys)
  show ?case
  proof (cases "P y")
    case True
    with Cons.prems show ?thesis by simp
  next
    case False
    with Cons.prems have f: "find P ys = Some u" by simp
    then have "P u" by (auto simp: find_Some_iff)
    with False have "y \<noteq> u" by auto
    with False Cons.IH [OF f] show ?thesis by simp
  qed
qed

lemma drop_stranded_find:
  "drop_stranded (find (\<lambda>e. role e = ''user'') th) th =
     Inr (if list_all (\<lambda>e. role e \<noteq> ''user'') th \<or> role (hd th) = ''user'' then th
          else tl (dropWhile (\<lambda>e. role e \<noteq> ''user'') th))"
proof (cases "find (\<lambda>e. role e = ''user'') th")
  case None
  then have "list_all (\<lambda>e. role e \<noteq> ''user'') th"
    by (simp add: find_None_iff list_all_iff)
  with None show ?thesis by (simp add: drop_stranded_def)
next
  case (Some u)
  then obtain first rest where th: "th = first # rest"
    by (cases th) auto
  from Some have u: "role u = ''user''" "u \<in> set th"
    by (auto simp: find_Some_iff)
  then have nall: "\<not> list_all (\<lambda>e. role e \<noteq> ''user'') th"
    by (auto simp: list_all_iff)
  show ?thesis
  proof (cases "role first = ''user''")
    case True
    with Some th have "u = first" by simp
    with Some th True show ?thesis by (simp add: drop_stranded_def)
  next
    case False
    with u have ne: "u \<noteq> first" by auto
    have "index th u = Inr (length (takeWhile (\<lambda>e. role e \<noteq> ''user'') th))"
      using index_find [OF Some] by (simp add: comp_def)
    moreover have "drop (length (takeWhile (\<lambda>e. role e \<noteq> ''user'') th) + 1) th =
        tl (dropWhile (\<lambda>e. role e \<noteq> ''user'') th)"
      by (simp add: dropWhile_eq_drop drop_Suc tl_drop)
    ultimately show ?thesis
      using Some th ne nall False by (simp add: drop_stranded_def del: index.simps)
  qed
qed


lemma tokens_suffix: "suffix xs ys \<Longrightarrow> tokens enc xs \<le> tokens enc ys"
  using tokens_nonneg [of enc] by (auto simp: suffix_def tokens_append)

lemma trim_window:
  "\<exists>th. suffix th H \<and> (th = [] \<or> tokens enc th \<le> L) \<and>
        trim enc H L = drop_stranded (find (\<lambda>e. role e = ''user'') th) th"
proof -
  from trim_loop_prefix [of "rev H" enc L 0 "[]"] obtain k where
    run: "trim_loop enc L (rev H) 0 None [] =
       Inr (find (\<lambda>e. role e = ''user'') (rev (take k (rev H))), rev (take k (rev H)))"
    and fit: "k = 0 \<or> tokens enc (take k (rev H)) \<le> L"
    by auto
  let ?th = "rev (take k (rev H))"
  have "?th = drop (length H - k) H"
    by (simp add: rev_take)
  then have "suffix ?th H"
    by (simp add: suffix_drop)
  moreover have "?th = [] \<or> tokens enc ?th \<le> L"
    using fit by (auto simp: tokens_rev)
  moreover have "trim enc H L = drop_stranded (find (\<lambda>e. role e = ''user'') ?th) ?th"
    using run by (simp add: trim_def)
  ultimately show ?thesis by blast
qed

lemma trim_within_limit:
  "tokens enc T \<le> L \<Longrightarrow> trim enc T L = drop_stranded (find (\<lambda>e. role e = ''user'') T) T"
  using trim_loop_all [of 0 enc "rev T" L "[]"] by (simp add: tokens_rev trim_def)

lemma trim_Nil: "trim enc [] L = Inr []"
  by (simp add: trim_def drop_stranded_def)

lemma suffix_after_user: "suffix (tl (dropWhile P xs)) xs"
  by (meson suffix_dropWhile suffix_tl suffix_order.trans)

lemma trim_result:
  "\<exists>T. trim enc H L = Inr T \<and> suffix T H \<and> (T = [] \<or> tokens enc T \<le> L)"
proof -
  from trim_window [of H enc L] obtain th where
    suf: "suffix th H" and fit: "th = [] \<or> tokens enc th \<le> L"
    and run: "trim enc H L = drop_stranded (find (\<lambda>e. role e = ''user'') th) th"
    by blast
  define T where "T = (if list_all (\<lambda>e. role e \<noteq> ''user'') th \<or> role (hd th) = ''user'' then th
          else tl (dropWhile (\<lambda>e. role e \<noteq> ''user'') th))"
  have eq: "trim enc H L = Inr T"
    using run by (simp add: drop_stranded_find T_def)
  have sufT: "suffix T th"
    by (simp add: T_def suffix_after_user)
  then have "suffix T H"
    using suf by (rule suffix_order.trans)
  moreover have "T = [] \<or> tokens enc T \<le> L"
  proof (cases "th = []")
    case True
    then show ?thesis by (simp add: T_def)
  next
    case False
    with fit have "tokens enc th \<le> L" by simp
    with tokens_suffix [OF sufT, of enc] show ?thesis by simp
  qed
  ultimately show ?thesis using eq by blast
qed

lemma after_user_shorter: "xs \<noteq> [] \<Longrightarrow> tl (dropWhile P xs) \<noteq> xs"
proof
  assume "xs \<noteq> []" and eq: "tl (dropWhile P xs) = xs"
  have "length (dropWhile P xs) \<le> length xs"
    by (rule length_dropWhile_le)
  moreover have "0 < length xs"
    using \<open>xs \<noteq> []\<close> by simp
  ultimately have "length (tl (dropWhile P xs)) < length xs"
    by (simp only: length_tl)
  with eq show False by simp
qed

lemma trim_again:
  assumes "trim enc H L = Inr T"
  shows "trim enc T L =
     Inr (if list_all (\<lambda>e. role e \<noteq> ''user'') T \<or> role (hd T) = ''user'' then T
          else tl (dropWhile (\<lambda>e. role e \<noteq> ''user'') T))"
proof (cases "T = []")
  case True
  then show ?thesis by (simp add: trim_Nil)
next
  case False
  with trim_result [of enc H L] assms have "tokens enc T \<le> L" by auto
  then show ?thesis
    by (simp add: trim_within_limit drop_stranded_find)
qed


text \<open>
  Claim C6. For every history \<open>H\<close> and limit \<open>L\<close>, trimming returns (it raises
  nothing) a contiguous suffix of \<open>H\<close>, in the original order and without gaps; for the
  empty history it returns the empty list.
\<close>

theorem trim_is_suffix:
  "(\<exists>T. trim enc H L = Inr T \<and> suffix T H) \<and> trim enc [] L = Inr []"
  using trim_result [of enc H L] by (auto simp: trim_Nil)

text \<open>
  Claim C5, as stated, fails when the limit is negative: the limit is
  \<^verbatim>\<open>tokens_available - max_output_length\<close>, which is \<open>-1\<close> for a \<^verbatim>\<open>gpt-4\<close> session
  with an output reservation of 8191 and a two-token system prompt. The trimmed history
  is then empty, and its zero tokens exceed the limit.
\<close>

theorem trim_fits_counterexample:
  "(case init char_encoder ''ab'' [] ''gpt-4'' 8191 False False of
      Inl e \<Rightarrow> 0 | Inr s \<Rightarrow> tokens_available s - max_output_length s) = - 1 \<and>
   trim char_encoder [\<lparr>role = ''user'', content = ''hi''\<rparr>] (- 1) = Inr [] \<and>
   \<not> tokens char_encoder [] \<le> - 1"
  by (simp add: init_def max_tokens_by_model_def char_encoder_def trim_def drop_stranded_def
      tokens_def)

text \<open>
  Claim C5, amended. For every history \<open>H\<close> and limit \<open>L\<close>, trimming returns a history
  whose per-turn token counts sum to at most \<open>L\<close> when \<open>L\<close> is not negative, and the
  empty history when \<open>L\<close> is negative.
\<close>

theorem trim_fits_nonnegative:
  "\<exists>T. trim enc H L = Inr T \<and> (if 0 \<le> L then tokens enc T \<le> L else T = [])"
proof -
  from trim_result [of enc H L] obtain T where
    T: "trim enc H L = Inr T" "T = [] \<or> tokens enc T \<le> L"
    by blast
  have "if 0 \<le> L then tokens enc T \<le> L else T = []"
    using T(2) tokens_nonneg [of enc T] by (auto simp: tokens_Nil)
  with T(1) show ?thesis by blast
qed

theorem trim_fits_nonnegative_witness:
  "trim char_encoder [\<lparr>role = ''assistant'', content = ''bbbb''\<rparr>, \<lparr>role = ''user'', content = ''c''\<rparr>,
      \<lparr>role = ''assistant'', content = ''d''\<rparr>] 4 =
     Inr [\<lparr>role = ''user'', content = ''c''\<rparr>, \<lparr>role = ''assistant'', content = ''d''\<rparr>] \<and>
   tokens char_encoder [\<lparr>role = ''user'', content = ''c''\<rparr>, \<lparr>role = ''assistant'', content = ''d''\<rparr>] \<le> 4"
  using trim_fits_nonnegative [of char_encoder
      "[\<lparr>role = ''assistant'', content = ''bbbb''\<rparr>, \<lparr>role = ''user'', content = ''c''\<rparr>,
        \<lparr>role = ''assistant'', content = ''d''\<rparr>]" 4]
  by (simp add: char_encoder_def trim_def drop_stranded_def tokens_def)

text \<open>
  Claim C2, as stated, fails: with one token for each character and the limit 4, a
  history of three user turns and two replies is trimmed to the last reply and the last
  user turn, and trimming that result again returns the empty history.
\<close>

theorem trim_idempotent_counterexample:
  "trim char_encoder
     [\<lparr>role = ''user'', content = ''aaaa''\<rparr>, \<lparr>role = ''assistant'', content = ''b''\<rparr>,
      \<lparr>role = ''user'', content = ''c''\<rparr>, \<lparr>role = ''assistant'', content = ''d''\<rparr>,
      \<lparr>role = ''user'', content = ''e''\<rparr>] 4 =
     Inr [\<lparr>role = ''assistant'', content = ''d''\<rparr>, \<lparr>role = ''user'', content = ''e''\<rparr>] \<and>
   trim char_encoder
     [\<lparr>role = ''assistant'', content = ''d''\<rparr>, \<lparr>role = ''user'', content = ''e''\<rparr>] 4 = Inr []"
  by (simp add: char_encoder_def trim_def drop_stranded_def)

text \<open>
  Claim C2, amended. For every history \<open>H\<close> and limit \<open>L\<close>, trimming the trimmed
  history \<open>T\<close> again removes nothing for lack of room; it returns \<open>T\<close> itself exactly
  when \<open>T\<close> has no user turn or begins with a user turn, and otherwise what follows the
  first user turn of \<open>T\<close>.
\<close>

theorem trim_twice:
  "\<exists>T. trim enc H L = Inr T \<and>
       trim enc T L =
         Inr (if list_all (\<lambda>e. role e \<noteq> ''user'') T \<or> role (hd T) = ''user'' then T
              else tl (dropWhile (\<lambda>e. role e \<noteq> ''user'') T)) \<and>
       (trim enc T L = Inr T \<longleftrightarrow>
          list_all (\<lambda>e. role e \<noteq> ''user'') T \<or> role (hd T) = ''user'')"
proof -
  from trim_result [of enc H L] obtain T where T: "trim enc H L = Inr T"
    by blast
  note again = trim_again [OF T]
  have "trim enc T L = Inr T \<longleftrightarrow>
      list_all (\<lambda>e. role e \<noteq> ''user'') T \<or> role (hd T) = ''user''"
  proof (cases "list_all (\<lambda>e. role e \<noteq> ''user'') T \<or> role (hd T) = ''user''")
    case True
    with again show ?thesis by simp
  next
    case False
    then have "T \<noteq> []" by auto
    then have "tl (dropWhile (\<lambda>e. role e \<noteq> ''user'') T) \<noteq> T"
      by (rule after_user_shorter)
    with again False show ?thesis by simp
  qed
  with T again show ?thesis by blast
qed

theorem trim_twice_witness:
  "trim char_encoder
     [\<lparr>role = ''assistant'', content = ''bbbb''\<rparr>, \<lparr>role = ''user'', content = ''c''\<rparr>,
      \<lparr>role = ''assistant'', content = ''d''\<rparr>] 4 =
     Inr [\<lparr>role = ''user'', content = ''c''\<rparr>, \<lparr>role = ''assistant'', content = ''d''\<rparr>] \<and>
   trim char_encoder [\<lparr>role = ''user'', content = ''c''\<rparr>, \<lparr>role = ''assistant'', content = ''d''\<rparr>] 4 =
     Inr [\<lparr>role = ''user'', content = ''c''\<rparr>, \<lparr>role = ''assistant'', content = ''d''\<rparr>]"
  using trim_twice [of char_encoder
      "[\<lparr>role = ''assistant'', content = ''bbbb''\<rparr>, \<lparr>role = ''user'', content = ''c''\<rparr>,
        \<lparr>role = ''assistant'', content = ''d''\<rparr>]" 4]
  by (simp add: char_encoder_def trim_def drop_stranded_def)

section \<open>Properties of construction\<close>

lemma fresh_session_init:
  "init char_encoder ''hi'' [] ''gpt-4'' 400 st r = Inr (fresh_session st r)"
  by (simp add: init_def max_tokens_by_model_def char_encoder_def fresh_session_def)

lemma init_ValueError_iff:
  "init enc prompt examples m out st r = Inl ValueError \<longleftrightarrow>
     (\<exists>capacity. map_of max_tokens_by_model m = Some capacity \<and> capacity < out)"
  by (auto simp: init_def Let_def split: option.splits)

lemma init_reservation_le:
  "init enc prompt examples m out st r = Inr s \<Longrightarrow>
     map_of max_tokens_by_model m = Some capacity \<Longrightarrow> max_output_length s \<le> capacity"
  by (auto simp: init_def Let_def split: option.splits if_splits)

text \<open>
  Claim C4. Construction is claimed to fail whenever the output reservation is greater
  than or equal to the capacity of the model. The guard of \<^verbatim>\<open>__init__\<close> is
  \<^verbatim>\<open>tokens_available < max_output_length\<close>, although its message reads
  \<^verbatim>\<open>must be less than max_tokens given by a model\<close>: with the reservation 8192 on
  \<^verbatim>\<open>gpt-4\<close>, whose capacity is 8192, construction succeeds.
\<close>

theorem init_accepts_reservation_equal_to_capacity:
  "init char_encoder ''hi'' [] ''gpt-4'' 8192 False False =
     Inr \<lparr>stream = False, model = ''gpt-4'', tokens_available = 8190,
          max_output_length = 8192, system_prompt = \<lparr>role = ''system'', content = ''hi''\<rparr>,
          initial_examples = [], history = [], answer = [],
          raise_on_error = False, on_error_calls = 0\<rparr> \<and>
   map_of max_tokens_by_model ''gpt-4'' = Some 8192"
  by (simp add: init_def max_tokens_by_model_def char_encoder_def)

section \<open>Properties of dispatch\<close>

lemma split_from_nonempty: "word \<noteq> [] \<Longrightarrow> split_from word cs \<noteq> []"
  by (induction cs arbitrary: word) auto

lemma split_nonempty: "\<not> isspace c \<Longrightarrow> split (c # cs) \<noteq> []"
  by (simp add: split_def split_from_nonempty)

lemma items_nonempty_strings: "\<forall>x\<in>set (SimpleStringIterator_items m). x \<noteq> []"
  by (simp add: SimpleStringIterator_items_def)

lemma call_raw_api_failure_not_streaming:
  assumes "api \<lparr>req_model = model s, req_stream = stream s,
                req_messages = system_prompt s # initial_examples s @ history s\<rparr> =
             RaisesOpenAIError e"
      and "\<not> stream s" and "\<not> raise_on_error s"
  shows "api_answer_wrapper api s =
     (Inl ValueError, s\<lparr>on_error_calls := Suc (on_error_calls s)\<rparr>)"
  using assms by (simp add: api_answer_wrapper_def call_raw_api_def)

lemma call_raw_api_failure_streaming:
  assumes "api \<lparr>req_model = model s, req_stream = stream s,
                req_messages = system_prompt s # initial_examples s @ history s\<rparr> =
             RaisesOpenAIError e"
      and "stream s" and "\<not> raise_on_error s"
  shows "api_answer_wrapper api s =
     (Inr (Iterator (''OpenAI internal error. '' @ e)),
      s\<lparr>on_error_calls := Suc (on_error_calls s)\<rparr>)"
    and "SimpleStringIterator_items (''OpenAI internal error. '' @ e) \<noteq> []"
  using assms
  by (simp_all add: api_answer_wrapper_def call_raw_api_def SimpleStringIterator_items_def
      split_nonempty isspace_def)

text \<open>
  Claim C1. With raise-on-error false, a failed dispatch is claimed to return a
  degraded response, the plain error string when streaming was not requested. On a
  session that does not stream, \<^verbatim>\<open>call_raw_api\<close> invokes the hook once and returns
  the error string, for which \<^verbatim>\<open>api_answer_wrapper\<close> has no case: the call raises
  \<^verbatim>\<open>ValueError\<close>. No assistant turn is appended.
\<close>

theorem call_failure_not_streaming_raises:
  "call char_encoder id (\<lambda>req. RaisesOpenAIError ''rate limit'') (fresh_session False False)
       ''hello'' =
     (Inl ValueError,
      (fresh_session False False)
        \<lparr>history := [\<lparr>role = ''user'', content = ''hello''\<rparr>], on_error_calls := 1\<rparr>)"
  by (simp add: call_def get_trimmed_history_def trim_def drop_stranded_def char_encoder_def
      fresh_session_def api_answer_wrapper_def call_raw_api_def)


section \<open>Properties of response processing\<close>

lemma process_response_delta:
  "carries_delta ch x \<Longrightarrow>
     process_response s ch = (Inr (Some x), s\<lparr>answer := answer s @ x\<rparr>)"
  by (auto simp: carries_delta_def process_response_def split: list.splits option.splits)

lemma process_response_without_content:
  "without_content ch \<Longrightarrow> process_response s ch = (Inr (Some []), s)"
  by (auto simp: without_content_def process_response_def split: list.splits option.splits)

lemma process_response_terminal_streaming:
  "terminal ch \<Longrightarrow> stream s \<Longrightarrow>
     process_response s ch =
       (Inr None,
        s\<lparr>history := history s @ [\<lparr>role = ''assistant'', content = answer s\<rparr>], answer := []\<rparr>)"
  by (auto simp: terminal_def process_response_def split: list.splits option.splits)

lemma process_response_terminal_answer:
  "terminal ch \<Longrightarrow> answer (snd (process_response s ch)) = []"
  by (auto simp: terminal_def process_response_def split: list.splits option.splits)

text \<open>
  Claim C8. When the session does not stream, processing a response object whose first
  choice has the finish reason \<open>stop\<close> and a message with content \<open>x\<close> appends exactly
  one assistant turn with content \<open>x\<close> to the history, empties the pending answer and
  returns \<open>x\<close>.
\<close>

theorem process_response_complete:
  assumes "\<not> stream s"
      and "choices ch = c # others"
      and "finish_reason c = Some ''stop''"
      and "message c = Some m"
      and "m ''content'' = Some x"
  shows "process_response s ch =
     (Inr (Some x),
      s\<lparr>history := history s @ [\<lparr>role = ''assistant'', content = x\<rparr>], answer := []\<rparr>)"
  using assms by (simp add: process_response_def)

theorem process_response_complete_witness:
  "process_response (fresh_session False False) (message_object ''stop'' ''X'') =
     (Inr (Some ''X''),
      (fresh_session False False)
        \<lparr>history := [\<lparr>role = ''assistant'', content = ''X''\<rparr>], answer := []\<rparr>)"
  using process_response_complete [of "fresh_session False False" "message_object ''stop'' ''X''"
      "\<lparr>finish_reason = Some ''stop'', delta = None,
        message = Some [''role'' \<mapsto> ''assistant'', ''content'' \<mapsto> ''X'']\<rparr>" "[]"
      "[''role'' \<mapsto> ''assistant'', ''content'' \<mapsto> ''X'']" "''X''"]
  by (simp add: fresh_session_def message_object_def)

lemma stream_handler_pieces: "\<forall>x\<in>set (fst (stream_handler s e)). x \<noteq> []"
  by (simp add: stream_handler_def)

lemma generator_wrapper_pieces:
  "\<forall>x\<in>set (fst (generator_wrapper s chunks fin)). x \<noteq> []"
proof (induction chunks arbitrary: s)
  case Nil
  show ?case
    by (cases fin) (simp_all add: stream_handler_pieces)
next
  case (Cons ch rest)
  obtain r s' where pr: "process_response s ch = (r, s')"
    by (cases "process_response s ch")
  show ?case
  proof (cases r)
    case (Inl e)
    with pr show ?thesis
      by (simp add: stream_handler_pieces)
  next
    case (Inr piece)
    obtain pieces err s'' where gw: "generator_wrapper s' rest fin = (pieces, err, s'')"
      by (cases "generator_wrapper s' rest fin")
    from Cons.IH [of s'] gw have "\<forall>x\<in>set pieces. x \<noteq> []" by simp
    with pr Inr gw show ?thesis
      by (cases piece) auto
  qed
qed

lemma generator_wrapper_without_content:
  "without_content ch \<Longrightarrow> generator_wrapper s (ch # rest) fin = generator_wrapper s rest fin"
  by (simp add: process_response_without_content split: prod.splits)

lemma generator_wrapper_terminal:
  "terminal ch \<Longrightarrow> stream s \<Longrightarrow>
     generator_wrapper s (ch # rest) fin =
       generator_wrapper
         (s\<lparr>history := history s @ [\<lparr>role = ''assistant'', content = answer s\<rparr>], answer := []\<rparr>)
         rest fin"
  by (simp add: process_response_terminal_streaming split: prod.splits)

lemma generator_wrapper_delta:
  "carries_delta ch x \<Longrightarrow>
     generator_wrapper s (ch # rest) fin =
       (case generator_wrapper (s\<lparr>answer := answer s @ x\<rparr>) rest fin of
          (pieces, err, s'') \<Rightarrow> ((if x \<noteq> [] then [x] else []) @ pieces, err, s''))"
  by (simp add: process_response_delta split: prod.splits)


text \<open>
  On a streaming session, three chunks carrying the deltas \<open>a\<close>, \<open>b\<close> and \<open>c\<close>
  followed by a terminal chunk append exactly one assistant turn and leave the pending
  answer empty; the non-empty deltas are what is yielded. The content of the appended
  turn is the pending answer that the stream found, followed by \<open>a @ b @ c\<close>.
\<close>

lemma streaming_accumulation_from_pending:
  assumes "stream s"
      and "carries_delta c1 a" and "carries_delta c2 b" and "carries_delta c3 c"
      and "terminal c4"
  shows "generator_wrapper s [c1, c2, c3, c4] StopIteration =
     (filter (\<lambda>x. x \<noteq> []) [a, b, c], None,
      s\<lparr>history := history s @ [\<lparr>role = ''assistant'', content = answer s @ a @ b @ c\<rparr>],
        answer := []\<rparr>)"
  using assms
  by (simp add: generator_wrapper_delta generator_wrapper_terminal
      del: generator_wrapper.simps(3))

lemma streaming_accumulation_from_empty_example:
  "generator_wrapper (fresh_session True False)
      [delta_chunk ''A'', delta_chunk ''B'', delta_chunk ''C'', finish_chunk ''stop'']
      StopIteration =
     ([''A'', ''B'', ''C''], None,
      (fresh_session True False)
        \<lparr>history := [\<lparr>role = ''assistant'', content = ''ABC''\<rparr>], answer := []\<rparr>)"
  using streaming_accumulation_from_pending [of "fresh_session True False" "delta_chunk ''A''"
      "''A''" "delta_chunk ''B''" "''B''" "delta_chunk ''C''" "''C''" "finish_chunk ''stop''"]
  by (simp add: fresh_session_def delta_chunk_def finish_chunk_def carries_delta_def terminal_def)

text \<open>
  Claim C10. Every fragment that the streaming wrapper yields is a non-empty string; a
  chunk whose delta lacks a content or carries the empty content yields nothing and
  leaves the session as it is; on a streaming session a terminal chunk yields nothing,
  the stream continuing from the session with the assistant turn appended.
\<close>

theorem yielded_fragments_nonempty:
  "(\<forall>x\<in>set (fst (generator_wrapper s chunks fin)). x \<noteq> []) \<and>
   (without_content ch \<longrightarrow>
      generator_wrapper s (ch # rest) fin = generator_wrapper s rest fin) \<and>
   (terminal ch \<and> stream s \<longrightarrow>
      generator_wrapper s (ch # rest) fin =
        generator_wrapper
          (s\<lparr>history := history s @ [\<lparr>role = ''assistant'', content = answer s\<rparr>], answer := []\<rparr>)
          rest fin)"
  using generator_wrapper_pieces [of s chunks fin]
  by (simp add: generator_wrapper_without_content generator_wrapper_terminal
      del: generator_wrapper.simps(3))


theorem yielded_fragments_nonempty_witness:
  "fst (generator_wrapper (fresh_session True False)
        [role_chunk, delta_chunk ''A'', delta_chunk [], finish_chunk ''stop''] StopIteration) =
     [''A''] \<and>
   generator_wrapper (fresh_session True False) [role_chunk, delta_chunk ''A''] StopIteration =
     generator_wrapper (fresh_session True False) [delta_chunk ''A''] StopIteration \<and>
   generator_wrapper (fresh_session True False) [delta_chunk [], delta_chunk ''A''] StopIteration =
     generator_wrapper (fresh_session True False) [delta_chunk ''A''] StopIteration \<and>
   generator_wrapper ((fresh_session True False)\<lparr>answer := ''A''\<rparr>) [finish_chunk ''stop'']
       StopIteration =
     ([], None, (fresh_session True False)
        \<lparr>history := [\<lparr>role = ''assistant'', content = ''A''\<rparr>], answer := []\<rparr>)"
  using yielded_fragments_nonempty [of "fresh_session True False"
      "[role_chunk, delta_chunk ''A'', delta_chunk [], finish_chunk ''stop'']" StopIteration
      role_chunk "[delta_chunk ''A'']"]
  by (simp add: fresh_session_def role_chunk_def delta_chunk_def finish_chunk_def
      without_content_def terminal_def process_response_def Let_def)

lemma process_response_raise_on_error:
  "process_response (s\<lparr>raise_on_error := b\<rparr>) ch =
     (case process_response s ch of (r, s') \<Rightarrow> (r, s'\<lparr>raise_on_error := b\<rparr>))"
  by (simp add: process_response_def split: list.splits option.splits)

lemma stream_handler_raise_on_error:
  "stream_handler (s\<lparr>raise_on_error := b\<rparr>) e =
     (case stream_handler s e of (p, r, s') \<Rightarrow> (p, r, s'\<lparr>raise_on_error := b\<rparr>))"
  by (simp add: stream_handler_def)

lemma generator_wrapper_raise_on_error:
  "generator_wrapper (s\<lparr>raise_on_error := b\<rparr>) chunks fin =
     (case generator_wrapper s chunks fin of (p, r, s') \<Rightarrow> (p, r, s'\<lparr>raise_on_error := b\<rparr>))"
proof (induction chunks arbitrary: s)
  case Nil
  show ?case
    by (cases fin) (simp_all add: stream_handler_raise_on_error)
next
  case (Cons ch rest)
  show ?case
    by (simp add: process_response_raise_on_error stream_handler_raise_on_error Cons.IH
        split: prod.splits sum.splits)
qed

text \<open>
  Claim C3. With raise-on-error true, a transport failure in the middle of a stream is
  claimed to reach the caller. \<^verbatim>\<open>generator_wrapper\<close> never reads the flag: on a
  session with raise-on-error true, a \<^verbatim>\<open>ChunkedEncodingError\<close> after the delta \<open>A\<close>
  invokes the hook once and the degraded message is yielded word by word; no exception
  leaves the generator.
\<close>

theorem stream_failure_degrades_despite_raise_on_error:
  "raise_on_error (fresh_session True True) \<and>
   generator_wrapper (fresh_session True True) [delta_chunk ''A''] (Raises ChunkedEncodingError) =
     ([''A'', ''openAI '', ''error. '', ''Please '', ''try '', ''again. ''], None,
      (fresh_session True True)\<lparr>answer := ''A'', on_error_calls := 1\<rparr>)"
  by (simp add: fresh_session_def delta_chunk_def process_response_def stream_handler_def
      split_def isspace_def Let_def)


section \<open>The pending answer across exchanges\<close>

lemma api_answer_wrapper_answer:
  "\<forall>req obj. api req \<noteq> ReturnsObject obj \<Longrightarrow>
     answer (snd (api_answer_wrapper api s)) = answer s"
  by (auto simp: api_answer_wrapper_def call_raw_api_def Let_def split: api_outcome.splits)

lemma call_answer:
  "\<forall>req obj. api req \<noteq> ReturnsObject obj \<Longrightarrow>
     answer (snd (call enc preprocessor api s args)) = answer s"
  by (simp add: call_def Let_def api_answer_wrapper_answer split: sum.splits)

lemma init_answer: "init enc prompt examples m out st r = Inr s \<Longrightarrow> answer s = []"
  by (auto simp: init_def Let_def split: option.splits if_splits)

text \<open>
  Claim C9. The pending answer is claimed to be empty at the start of every streamed
  exchange, however the previous one ended. \<^verbatim>\<open>_answer\<close> is emptied in
  \<^verbatim>\<open>__init__\<close>, in \<^verbatim>\<open>reset\<close> and at the terminal chunk, but not in the
  \<^verbatim>\<open>ChunkedEncodingError\<close> handler of \<^verbatim>\<open>generator_wrapper\<close>, nor in
  \<^verbatim>\<open>__call__\<close>: after a stream that is cut after the delta \<open>A\<close>, the next
  invocation starts its streamed exchange with the pending answer \<open>A\<close>, and its
  assistant turn is \<open>AB\<close>.
\<close>

theorem pending_answer_survives_cut_stream:
  "call char_encoder id
      (\<lambda>req. ReturnsGenerator [delta_chunk ''A''] (Raises ChunkedEncodingError))
      (fresh_session True False) ''one'' =
     (Inr (Generator [delta_chunk ''A''] (Raises ChunkedEncodingError)),
      (fresh_session True False)\<lparr>history := [\<lparr>role = ''user'', content = ''one''\<rparr>]\<rparr>) \<and>
   generator_wrapper
      ((fresh_session True False)\<lparr>history := [\<lparr>role = ''user'', content = ''one''\<rparr>]\<rparr>)
      [delta_chunk ''A''] (Raises ChunkedEncodingError) =
     ([''A'', ''openAI '', ''error. '', ''Please '', ''try '', ''again. ''], None,
      (fresh_session True False)
        \<lparr>history := [\<lparr>role = ''user'', content = ''one''\<rparr>], answer := ''A'',
         on_error_calls := 1\<rparr>) \<and>
   call char_encoder id
      (\<lambda>req. ReturnsGenerator [delta_chunk ''B'', finish_chunk ''stop''] StopIteration)
      ((fresh_session True False)
        \<lparr>history := [\<lparr>role = ''user'', content = ''one''\<rparr>], answer := ''A'',
         on_error_calls := 1\<rparr>) ''two'' =
     (Inr (Generator [delta_chunk ''B'', finish_chunk ''stop''] StopIteration),
      (fresh_session True False)
        \<lparr>history := [\<lparr>role = ''user'', content = ''one''\<rparr>, \<lparr>role = ''user'', content = ''two''\<rparr>],
         answer := ''A'', on_error_calls := 1\<rparr>) \<and>
   generator_wrapper
      ((fresh_session True False)
        \<lparr>history := [\<lparr>role = ''user'', content = ''one''\<rparr>, \<lparr>role = ''user'', content = ''two''\<rparr>],
         answer := ''A'', on_error_calls := 1\<rparr>)
      [delta_chunk ''B'', finish_chunk ''stop''] StopIteration =
     ([''B''], None,
      (fresh_session True False)
        \<lparr>history := [\<lparr>role = ''user'', content = ''one''\<rparr>, \<lparr>role = ''user'', content = ''two''\<rparr>,
                     \<lparr>role = ''assistant'', content = ''AB''\<rparr>],
         answer := [], on_error_calls := 1\<rparr>)"
  by (simp add: call_def get_trimmed_history_def trim_def drop_stranded_def char_encoder_def
      fresh_session_def api_answer_wrapper_def call_raw_api_def delta_chunk_def finish_chunk_def
      process_response_def stream_handler_def split_def isspace_def Let_def)

text \<open>
  Where the pending answer is emptied, and that an invocation whose dispatch does not
  return a complete response object leaves it as it found it.
\<close>

lemma pending_answer_resets:
  "answer (reset s) = [] \<and>
   (init enc prompt examples m out st r = Inr s0 \<longrightarrow> answer s0 = []) \<and>
   (terminal ch \<longrightarrow> answer (snd (process_response s ch)) = []) \<and>
   ((\<forall>req obj. api req \<noteq> ReturnsObject obj) \<longrightarrow>
      answer (snd (call enc preprocessor api s args)) = answer s)"
  by (simp add: reset_def init_answer process_response_terminal_answer call_answer)

lemma pending_answer_resets_example:
  "answer (reset ((fresh_session True False)\<lparr>answer := ''A''\<rparr>)) = [] \<and>
   answer (fresh_session True False) = [] \<and>
   answer (snd (process_response ((fresh_session True False)\<lparr>answer := ''A''\<rparr>)
                  (finish_chunk ''stop''))) = [] \<and>
   answer (snd (call char_encoder id
                  (\<lambda>req. ReturnsGenerator [delta_chunk ''B'', finish_chunk ''stop''] StopIteration)
                  ((fresh_session True False)\<lparr>answer := ''A''\<rparr>) ''two'')) = ''A''"
proof -
  have i: "init char_encoder ''hi'' [] ''gpt-4'' 400 True False = Inr (fresh_session True False)"
    by (rule fresh_session_init)
  have t: "terminal (finish_chunk ''stop'')"
    by (simp add: terminal_def finish_chunk_def)
  have a: "\<forall>req obj. ReturnsGenerator [delta_chunk ''B'', finish_chunk ''stop''] StopIteration
      \<noteq> ReturnsObject obj"
    by simp
  from pending_answer_resets [where s = "(fresh_session True False)\<lparr>answer := ''A''\<rparr>"
      and enc = char_encoder and prompt = "''hi''" and examples = "[]" and m = "''gpt-4''"
      and out = 400 and st = True and r = False and ?s0.0 = "fresh_session True False"
      and ch = "finish_chunk ''stop''"
      and api = "\<lambda>req. ReturnsGenerator [delta_chunk ''B'', finish_chunk ''stop''] StopIteration"
      and preprocessor = id and args = "''two''"] i t a
  have "answer (reset ((fresh_session True False)\<lparr>answer := ''A''\<rparr>)) = [] \<and>
    answer (fresh_session True False) = [] \<and>
    answer (snd (process_response ((fresh_session True False)\<lparr>answer := ''A''\<rparr>)
                  (finish_chunk ''stop''))) = [] \<and>
    answer (snd (call char_encoder id
                  (\<lambda>req. ReturnsGenerator [delta_chunk ''B'', finish_chunk ''stop''] StopIteration)
                  ((fresh_session True False)\<lparr>answer := ''A''\<rparr>) ''two'')) = ''A''"
    by simp
  then show ?thesis by simp
qed


text \<open>
  Claim C7. Consuming the wrapped stream of the deltas \<open>A\<close>, \<open>B\<close>, \<open>C\<close> and a
  terminal \<open>stop\<close> chunk is claimed to append one assistant turn with content \<open>ABC\<close>.
  On a session whose previous stream was cut by a \<^verbatim>\<open>ChunkedEncodingError\<close> after the
  delta \<open>X\<close>, the pending answer is still \<open>X\<close> when the next invocation returns its
  generator, and the assistant turn appended for \<open>A\<close>, \<open>B\<close>, \<open>C\<close> is \<open>XABC\<close>.
\<close>

theorem streaming_accumulation_after_cut_stream:
  "call char_encoder id
      (\<lambda>req. ReturnsGenerator [delta_chunk ''X''] (Raises ChunkedEncodingError))
      (fresh_session True False) ''one'' =
     (Inr (Generator [delta_chunk ''X''] (Raises ChunkedEncodingError)),
      (fresh_session True False)\<lparr>history := [\<lparr>role = ''user'', content = ''one''\<rparr>]\<rparr>) \<and>
   generator_wrapper
      ((fresh_session True False)\<lparr>history := [\<lparr>role = ''user'', content = ''one''\<rparr>]\<rparr>)
      [delta_chunk ''X''] (Raises ChunkedEncodingError) =
     ([''X'', ''openAI '', ''error. '', ''Please '', ''try '', ''again. ''], None,
      (fresh_session True False)
        \<lparr>history := [\<lparr>role = ''user'', content = ''one''\<rparr>], answer := ''X'',
         on_error_calls := 1\<rparr>) \<and>
   call char_encoder id
      (\<lambda>req. ReturnsGenerator
         [delta_chunk ''A'', delta_chunk ''B'', delta_chunk ''C'', finish_chunk ''stop'']
         StopIteration)
      ((fresh_session True False)
        \<lparr>history := [\<lparr>role = ''user'', content = ''one''\<rparr>], answer := ''X'',
         on_error_calls := 1\<rparr>) ''two'' =
     (Inr (Generator
         [delta_chunk ''A'', delta_chunk ''B'', delta_chunk ''C'', finish_chunk ''stop'']
         StopIteration),
      (fresh_session True False)
        \<lparr>history := [\<lparr>role = ''user'', content = ''one''\<rparr>, \<lparr>role = ''user'', content = ''two''\<rparr>],
         answer := ''X'', on_error_calls := 1\<rparr>) \<and>
   generator_wrapper
      ((fresh_session True False)
        \<lparr>history := [\<lparr>role = ''user'', content = ''one''\<rparr>, \<lparr>role = ''user'', content = ''two''\<rparr>],
         answer := ''X'', on_error_calls := 1\<rparr>)
      [delta_chunk ''A'', delta_chunk ''B'', delta_chunk ''C'', finish_chunk ''stop'']
      StopIteration =
     ([''A'', ''B'', ''C''], None,
      (fresh_session True False)
        \<lparr>history := [\<lparr>role = ''user'', content = ''one''\<rparr>, \<lparr>role = ''user'', content = ''two''\<rparr>,
                     \<lparr>role = ''assistant'', content = ''XABC''\<rparr>],
         answer := [], on_error_calls := 1\<rparr>)"
  by (simp add: call_def get_trimmed_history_def trim_def drop_stranded_def char_encoder_def
      fresh_session_def api_answer_wrapper_def call_raw_api_def delta_chunk_def finish_chunk_def
      process_response_def stream_handler_def split_def isspace_def Let_def)

text \<open>
  An exception other than \<^verbatim>\<open>ChunkedEncodingError\<close> raised by the upstream generator
  leaves \<^verbatim>\<open>generator_wrapper\<close> without the hook being invoked.
\<close>

lemma stream_other_error_propagates:
  "e \<noteq> ChunkedEncodingError \<Longrightarrow> generator_wrapper s [] (Raises e) = ([], Some e, s)"
  by (simp add: stream_handler_def)

lemma call_failure_streaming_degrades:
  "call char_encoder id (\<lambda>req. RaisesOpenAIError ''rate limit'') (fresh_session True False)
       ''hello'' =
     (Inr (Iterator ''OpenAI internal error. rate limit''),
      (fresh_session True False)
        \<lparr>history := [\<lparr>role = ''user'', content = ''hello''\<rparr>], on_error_calls := 1\<rparr>) \<and>
   SimpleStringIterator_items ''OpenAI internal error. rate limit'' =
     [''OpenAI '', ''internal '', ''error. '', ''rate '', ''limit '']"
  by (simp add: call_def get_trimmed_history_def trim_def drop_stranded_def char_encoder_def
      fresh_session_def api_answer_wrapper_def call_raw_api_def SimpleStringIterator_items_def
      split_def isspace_def Let_def)

lemma joined_count_may_exceed:
  "trim char_encoder [\<lparr>role = ''user'', content = ''ab''\<rparr>, \<lparr>role = ''assistant'', content = ''cd''\<rparr>] 4 =
     Inr [\<lparr>role = ''user'', content = ''ab''\<rparr>, \<lparr>role = ''assistant'', content = ''cd''\<rparr>] \<and>
   get_number_of_tokens char_encoder
     (InList [\<lparr>role = ''user'', content = ''ab''\<rparr>, \<lparr>role = ''assistant'', content = ''cd''\<rparr>]) =
     Inr 5"
  by (simp add: trim_def drop_stranded_def char_encoder_def)

end
